theory Spec2Isabelle
  imports Main
begin

section \<open>The chat component of src/components/Chat.jsx\<close>

text \<open>
  The component keeps five pieces of React state (\<open>sessionId\<close>, \<open>messages\<close>, \<open>input\<close>,
  \<open>isLoading\<close>, \<open>historyList\<close>) and two keys of the browser's local storage. Its handlers
  are asynchronous: each runs synchronously up to an \<open>await fetch(...)\<close>, and its remainder
  runs when that request settles. Every asynchronous handler \<open>h\<close> is therefore embedded
  as two functions, \<open>h_call\<close> (the code before the first \<open>await\<close>) and \<open>h_cont\<close> (the code
  after it, given how the request settled), and as their composition \<open>h\<close>, the handler
  run with nothing else in between. Handlers whose requests overlap are run by the
  event loop defined below.

  Strings are lists of code units below 256.
\<close>

subsection \<open>Data\<close>

text \<open>
  A session id as the component holds it: \<open>sessionId\<close> starts as \<open>null\<close>, and the
  \<open>sessionId\<close> of a response body, or the \<open>id\<close> of an entry, is \<open>undefined\<close> when the
  key is missing.
\<close>

datatype jsval = Null | Undefined | Str string

record source_ref =
  source :: string
  link :: string

text \<open>A message object; \<open>sources = None\<close> is an object without the key \<open>sources\<close>.\<close>

record message =
  role :: string
  content :: string
  sources :: "source_ref list option"

text \<open>An entry of \<open>historyList\<close>, the object \<open>{ id, date }\<close>.\<close>

record history_item =
  item_id :: jsval
  date :: string

text \<open>
  The requests the component sends, by method and path under \<open>API_URL\<close>. A path holds
  the id as the template literal prints it; the body of \<open>POST /chat\<close> holds
  \<open>sessionId\<close> and \<open>message\<close>.
\<close>

datatype request =
    POST_session
  | GET_history string
  | POST_chat jsval string
  | DELETE_session string

text \<open>
  What the component does to the outside, in the order it does it: \<open>fetch\<close>,
  \<open>alert\<close>, \<open>window.confirm\<close> and \<open>console.error\<close>.
\<close>

datatype event =
    Fetch request
  | Alert string
  | Confirm string
  | Console_error string

text \<open>
  How a request settles. \<open>Rejected\<close>: the promise of \<open>fetch\<close> rejects (no response at
  all). \<open>Resolved status body\<close>: \<open>fetch\<close> resolves with an HTTP status, whatever it is;
  \<open>body\<close> is \<open>Some d\<close> when \<open>res.json()\<close> yields \<open>d\<close>, and \<open>None\<close> when it rejects or
  yields \<open>null\<close>, whose properties cannot be read: both throw into the handler's
  \<open>catch\<close>. For \<open>POST /session\<close> the \<open>d\<close> is \<open>data.sessionId\<close>, \<open>Undefined\<close> when the
  body has no such key.
\<close>

datatype 'a fetched = Rejected | Resolved nat "'a option"

text \<open>The body of the answer to \<open>POST /chat\<close>: \<open>data.answer\<close> and \<open>data.sources\<close>.\<close>

record chat_body =
  answer :: string
  answer_sources :: "source_ref list option"

text \<open>
  The state the handlers read and write: the five \<open>useState\<close> cells, the local storage,
  and the record of the events so far.
\<close>

record chat_state =
  sessionId :: jsval
  messages :: "message list"
  input :: string
  isLoading :: bool
  historyList :: "history_item list"
  localStorage :: "string \<rightharpoonup> string"
  trace :: "event list"

text \<open>
  A handler either runs to its end (\<open>Returned\<close>) or stops at an \<open>await\<close> with a request
  in flight (\<open>Awaiting\<close>).
\<close>

datatype started = Returned chat_state | Awaiting chat_state


subsection \<open>The JavaScript built-ins the handlers use\<close>

text \<open>
  The string of a value, as a template literal and \<open>localStorage.setItem\<close> make it.
\<close>

definition to_text :: "jsval \<Rightarrow> string" where
  "to_text v = (case v of Null \<Rightarrow> ''null'' | Undefined \<Rightarrow> ''undefined'' | Str t \<Rightarrow> t)"

text \<open>\<open>!v\<close>: \<open>null\<close>, \<open>undefined\<close> and the empty string are falsy.\<close>

definition falsy :: "jsval \<Rightarrow> bool" where
  "falsy v = (v = Null \<or> v = Undefined \<or> v = Str [])"

text \<open>White space and line terminators of \<open>String.prototype.trim\<close>, below 256.\<close>

definition is_white_space :: "char \<Rightarrow> bool" where
  "is_white_space c =
     (c = CHR 0x09 \<or> c = CHR 0x0A \<or> c = CHR 0x0B \<or> c = CHR 0x0C \<or> c = CHR 0x0D
      \<or> c = CHR 0x20 \<or> c = CHR 0xA0)"

definition trim :: "string \<Rightarrow> string" where
  "trim s = rev (dropWhile is_white_space (rev (dropWhile is_white_space s)))"

definition hex_digit :: "nat \<Rightarrow> char" where
  "hex_digit n = (''0123456789abcdef'' ! (n mod 16))"

text \<open>The escapes of \<open>JSON.stringify\<close> inside a string.\<close>

definition JSON_escape :: "char \<Rightarrow> string" where
  "JSON_escape c =
     (if c = CHR 0x22 then [CHR 0x5C, CHR 0x22]
      else if c = CHR 0x5C then [CHR 0x5C, CHR 0x5C]
      else if c = CHR 0x08 then [CHR 0x5C, CHR ''b'']
      else if c = CHR 0x0C then [CHR 0x5C, CHR ''f'']
      else if c = CHR 0x0A then [CHR 0x5C, CHR ''n'']
      else if c = CHR 0x0D then [CHR 0x5C, CHR ''r'']
      else if c = CHR 0x09 then [CHR 0x5C, CHR ''t'']
      else if (of_char c :: nat) < 32
        then [CHR 0x5C, CHR ''u'', CHR ''0'', CHR ''0'',
              hex_digit (of_char c div 16), hex_digit (of_char c)]
      else [c])"

definition JSON_quote :: "string \<Rightarrow> string" where
  "JSON_quote s = [CHR 0x22] @ concat (map JSON_escape s) @ [CHR 0x22]"

text \<open>
  An entry: a key whose value is \<open>undefined\<close> is left out, \<open>null\<close> is written
  \<open>null\<close>.
\<close>

definition JSON_item :: "history_item \<Rightarrow> string" where
  "JSON_item item =
     ''{'' @
     (case item_id item of
        Undefined \<Rightarrow> []
      | Null \<Rightarrow> JSON_quote ''id'' @ '':null,''
      | Str i \<Rightarrow> JSON_quote ''id'' @ '':'' @ JSON_quote i @ '','') @
     JSON_quote ''date'' @ '':'' @ JSON_quote (date item) @ ''}''"

fun join_comma :: "string list \<Rightarrow> string" where
  "join_comma [] = []"
| "join_comma [x] = x"
| "join_comma (x # y # ys) = x @ '','' @ join_comma (y # ys)"

definition JSON_stringify :: "history_item list \<Rightarrow> string" where
  "JSON_stringify items = ''['' @ join_comma (map JSON_item items) @ '']''"

subsection \<open>Constants of the component\<close>

definition greeting :: message where
  "greeting =
     \<lparr>role = ''assistant'',
      content = ''Hello! I am your news assistant. Ask me anything about the latest news.'',
      sources = None\<rparr>"

definition apology :: message where
  "apology =
     \<lparr>role = ''assistant'',
      content = ''Sorry, something went wrong. Please try again.'',
      sources = None\<rparr>"

definition last_session_alert :: string where
  "last_session_alert =
     ''You cannot delete the last active session. Please create a new chat first.''"

definition delete_prompt :: string where
  "delete_prompt = ''Are you sure you want to delete this chat?''"

definition reset_prompt :: string where
  "reset_prompt =
     ''Are you sure you want to clear this chat's history? This will delete all messages in the current conversation.''"

definition emit :: "event \<Rightarrow> chat_state \<Rightarrow> chat_state" where
  "emit e s = s\<lparr>trace := trace s @ [e]\<rparr>"

subsection \<open>createSession\<close>

definition createSession_call :: "chat_state \<Rightarrow> chat_state" where
  "createSession_call s = emit (Fetch POST_session) s"

text \<open>
  \<open>historyList0\<close> is the \<open>historyList\<close> of the render in which the handler was called
  (the closure's value); \<open>now\<close> is \<open>new Date().toLocaleString()\<close>. A body without
  \<open>sessionId\<close> goes the same way as one with it, the id being \<open>undefined\<close>.
\<close>

definition createSession_cont ::
  "history_item list \<Rightarrow> string \<Rightarrow> jsval fetched \<Rightarrow> chat_state \<Rightarrow> chat_state" where
  "createSession_cont historyList0 now res s =
     (case res of
        Rejected \<Rightarrow> emit (Console_error ''Error creating session:'') s
      | Resolved status None \<Rightarrow> emit (Console_error ''Error creating session:'') s
      | Resolved status (Some newSessionId) \<Rightarrow>
          (let updatedList = \<lparr>item_id = newSessionId, date = now\<rparr> # historyList0 in
           s\<lparr>sessionId := newSessionId,
             messages := [greeting],
             historyList := updatedList,
             localStorage := (localStorage s)
               (''chat_session_id'' \<mapsto> to_text newSessionId,
                ''chat_history_list'' \<mapsto> JSON_stringify updatedList)\<rparr>))"

definition createSession :: "string \<Rightarrow> jsval fetched \<Rightarrow> chat_state \<Rightarrow> chat_state" where
  "createSession now res s = createSession_cont (historyList s) now res (createSession_call s)"

subsection \<open>fetchHistory and handleLoadSession\<close>

definition fetchHistory_call :: "jsval \<Rightarrow> chat_state \<Rightarrow> chat_state" where
  "fetchHistory_call i s = emit (Fetch (GET_history (to_text i))) s"

text \<open>The body's \<open>history\<close> is \<open>None\<close> when \<open>data.history\<close> is missing.\<close>

definition fetchHistory_cont ::
  "message list option fetched \<Rightarrow> chat_state \<Rightarrow> chat_state" where
  "fetchHistory_cont res s =
     (case res of
        Rejected \<Rightarrow> emit (Console_error ''Error fetching history:'') s
      | Resolved status None \<Rightarrow> emit (Console_error ''Error fetching history:'') s
      | Resolved status (Some history) \<Rightarrow>
          (case history of
             Some (m # ms) \<Rightarrow> s\<lparr>messages := m # ms\<rparr>
           | _ \<Rightarrow> s\<lparr>messages := [greeting]\<rparr>))"

definition fetchHistory ::
  "jsval \<Rightarrow> message list option fetched \<Rightarrow> chat_state \<Rightarrow> chat_state" where
  "fetchHistory i res s = fetchHistory_cont res (fetchHistory_call i s)"

text \<open>\<open>sessionId0\<close> is the \<open>sessionId\<close> of the render whose \<open>handleLoadSession\<close> runs.\<close>

definition handleLoadSession_call :: "jsval \<Rightarrow> jsval \<Rightarrow> chat_state \<Rightarrow> started" where
  "handleLoadSession_call sessionId0 i s =
     (if i = sessionId0 then Returned s
      else Awaiting (fetchHistory_call i
             (s\<lparr>sessionId := i,
                localStorage := (localStorage s)(''chat_session_id'' \<mapsto> to_text i)\<rparr>)))"

definition handleLoadSession ::
  "jsval \<Rightarrow> message list option fetched \<Rightarrow> chat_state \<Rightarrow> chat_state" where
  "handleLoadSession i res s =
     (case handleLoadSession_call (sessionId s) i s of
        Returned s1 \<Rightarrow> s1
      | Awaiting s1 \<Rightarrow> fetchHistory_cont res s1)"

subsection \<open>handleDeleteSession\<close>

text \<open>\<open>confirmed\<close> is what \<open>window.confirm\<close> returns.\<close>

definition handleDeleteSession_call :: "jsval \<Rightarrow> bool \<Rightarrow> chat_state \<Rightarrow> started" where
  "handleDeleteSession_call i confirmed s =
     (if length (historyList s) \<le> 1 then Returned (emit (Alert last_session_alert) s)
      else if confirmed
        then Awaiting (emit (Fetch (DELETE_session (to_text i))) (emit (Confirm delete_prompt) s))
      else Returned (emit (Confirm delete_prompt) s))"

text \<open>
  After the \<open>await\<close>. \<open>updatedList[0]\<close> of an empty list is \<open>undefined\<close>, and reading its
  \<open>id\<close> throws inside the \<open>try\<close>: the \<open>catch\<close> logs it, after the list was already
  replaced.
\<close>

definition handleDeleteSession_cont ::
  "history_item list \<Rightarrow> jsval \<Rightarrow> jsval \<Rightarrow> unit fetched \<Rightarrow> chat_state \<Rightarrow> started" where
  "handleDeleteSession_cont historyList0 sessionId0 i res s =
     (case res of
        Rejected \<Rightarrow> Returned (emit (Console_error ''Error deleting session:'') s)
      | Resolved status body \<Rightarrow>
          (let updatedList = filter (\<lambda>item. item_id item \<noteq> i) historyList0;
               s1 = s\<lparr>historyList := updatedList,
                      localStorage := (localStorage s)
                        (''chat_history_list'' \<mapsto> JSON_stringify updatedList)\<rparr>
           in if i = sessionId0 then
                (case updatedList of
                   [] \<Rightarrow> Returned (emit (Console_error ''Error deleting session:'') s1)
                 | nextSession # rest \<Rightarrow>
                     handleLoadSession_call sessionId0 (item_id nextSession) s1)
              else Returned s1))"

text \<open>\<open>hres\<close> settles the \<open>GET /history\<close> that the switch to the next session starts.\<close>

definition handleDeleteSession ::
  "jsval \<Rightarrow> bool \<Rightarrow> unit fetched \<Rightarrow> message list option fetched \<Rightarrow> chat_state \<Rightarrow> chat_state" where
  "handleDeleteSession i confirmed res hres s =
     (case handleDeleteSession_call i confirmed s of
        Returned s1 \<Rightarrow> s1
      | Awaiting s1 \<Rightarrow>
          (case handleDeleteSession_cont (historyList s) (sessionId s) i res s1 of
             Returned s2 \<Rightarrow> s2
           | Awaiting s2 \<Rightarrow> fetchHistory_cont hres s2))"

subsection \<open>handleResetChat\<close>

definition handleResetChat_call :: "bool \<Rightarrow> chat_state \<Rightarrow> started" where
  "handleResetChat_call confirmed s =
     (if falsy (sessionId s) then Returned s
      else if confirmed
        then Awaiting (emit (Fetch (DELETE_session (to_text (sessionId s))))
               (emit (Confirm reset_prompt) s))
      else Returned (emit (Confirm reset_prompt) s))"

definition handleResetChat_cont :: "unit fetched \<Rightarrow> chat_state \<Rightarrow> chat_state" where
  "handleResetChat_cont res s =
     (case res of
        Rejected \<Rightarrow> emit (Console_error ''Error resetting chat:'') s
      | Resolved status body \<Rightarrow> s\<lparr>messages := [greeting]\<rparr>)"

definition handleResetChat :: "bool \<Rightarrow> unit fetched \<Rightarrow> chat_state \<Rightarrow> chat_state" where
  "handleResetChat confirmed res s =
     (case handleResetChat_call confirmed s of
        Returned s1 \<Rightarrow> s1
      | Awaiting s1 \<Rightarrow> handleResetChat_cont res s1)"

subsection \<open>sendMessage\<close>

definition sendMessage_call :: "chat_state \<Rightarrow> started" where
  "sendMessage_call s =
     (if trim (input s) = [] \<or> isLoading s then Returned s
      else Awaiting (emit (Fetch (POST_chat (sessionId s) (input s)))
             (s\<lparr>messages := messages s @ [\<lparr>role = ''user'', content = input s, sources = None\<rparr>],
                input := [],
                isLoading := True\<rparr>)))"

definition sendMessage_cont :: "chat_body fetched \<Rightarrow> chat_state \<Rightarrow> chat_state" where
  "sendMessage_cont res s =
     (case res of
        Rejected \<Rightarrow>
          (emit (Console_error ''Error sending message:'') s)
            \<lparr>messages := messages s @ [apology], isLoading := False\<rparr>
      | Resolved status None \<Rightarrow>
          (emit (Console_error ''Error sending message:'') s)
            \<lparr>messages := messages s @ [apology], isLoading := False\<rparr>
      | Resolved status (Some data) \<Rightarrow>
          s\<lparr>messages := messages s @
               [\<lparr>role = ''assistant'', content = answer data, sources = answer_sources data\<rparr>],
            isLoading := False\<rparr>)"

definition sendMessage :: "chat_body fetched \<Rightarrow> chat_state \<Rightarrow> chat_state" where
  "sendMessage res s =
     (case sendMessage_call s of
        Returned s1 \<Rightarrow> s1
      | Awaiting s1 \<Rightarrow> sendMessage_cont res s1)"

subsection \<open>The mount effect\<close>




subsection \<open>Overlapping handlers\<close>








subsection \<open>The directory and its persisted copy\<close>

text \<open>The ids of the session directory, in the order of \<open>historyList\<close>.\<close>

definition directory_ids :: "chat_state \<Rightarrow> jsval list" where
  "directory_ids s = map item_id (historyList s)"

text \<open>
  The local storage holds, under \<open>chat_history_list\<close>, the serialization of the list
  that is in memory.
\<close>

definition directory_persisted :: "chat_state \<Rightarrow> bool" where
  "directory_persisted s =
     (localStorage s ''chat_history_list'' = Some (JSON_stringify (historyList s)))"



subsection \<open>A state to run the handlers on\<close>

text \<open>
  Two sessions \<open>s1\<close> and \<open>s2\<close>, \<open>s1\<close> active with a transcript of two messages, and a
  typed input with a leading space.
\<close>

definition scenario_state :: chat_state where
  "scenario_state =
     \<lparr>sessionId = Str ''s1'',
      messages = [\<lparr>role = ''user'', content = ''hi'', sources = None\<rparr>,
                  \<lparr>role = ''assistant'', content = ''hello'', sources = None\<rparr>],
      input = '' weather?'',
      isLoading = False,
      historyList = [\<lparr>item_id = Str ''s1'', date = ''d1''\<rparr>, \<lparr>item_id = Str ''s2'', date = ''d2''\<rparr>],
      localStorage =
        [''chat_session_id'' \<mapsto> ''s1'',
         ''chat_history_list'' \<mapsto>
           JSON_stringify [\<lparr>item_id = Str ''s1'', date = ''d1''\<rparr>,
                           \<lparr>item_id = Str ''s2'', date = ''d2''\<rparr>]],
      trace = []\<rparr>"

section \<open>Facts about the handlers\<close>

lemma fetchHistory_cont_frame:
  "historyList (fetchHistory_cont hres s) = historyList s"
  "localStorage (fetchHistory_cont hres s) = localStorage s"
  "sessionId (fetchHistory_cont hres s) = sessionId s"
  "isLoading (fetchHistory_cont hres s) = isLoading s"
  "input (fetchHistory_cont hres s) = input s"
  by (simp_all add: fetchHistory_cont_def emit_def split: fetched.split option.split list.split)

lemma fetchHistory_cont_messages:
  "messages (fetchHistory_cont hres s) =
     (case hres of
        Resolved status (Some (Some (m # ms))) \<Rightarrow> m # ms
      | Resolved status (Some _) \<Rightarrow> [greeting]
      | _ \<Rightarrow> messages s)"
  by (simp add: fetchHistory_cont_def emit_def split: fetched.split option.split list.split)

lemma fetchHistory_cont_trace:
  "trace (fetchHistory_cont hres s) =
     trace s @ (case hres of
        Resolved status (Some h) \<Rightarrow> []
      | _ \<Rightarrow> [Console_error ''Error fetching history:''])"
  by (simp add: fetchHistory_cont_def emit_def split: fetched.split option.split list.split)


subsection \<open>The ways handleDeleteSession can go\<close>

lemma delete_last:
  "length (historyList s) \<le> 1 \<Longrightarrow>
   handleDeleteSession i confirmed res hres s = s\<lparr>trace := trace s @ [Alert last_session_alert]\<rparr>"
  by (simp add: handleDeleteSession_def handleDeleteSession_call_def emit_def)

lemma delete_declined:
  "2 \<le> length (historyList s) \<Longrightarrow>
   handleDeleteSession i False res hres s = s\<lparr>trace := trace s @ [Confirm delete_prompt]\<rparr>"
  by (simp add: handleDeleteSession_def handleDeleteSession_call_def emit_def)

lemma delete_rejected:
  "2 \<le> length (historyList s) \<Longrightarrow>
   handleDeleteSession i True Rejected hres s =
     s\<lparr>trace := trace s @ [Confirm delete_prompt, Fetch (DELETE_session (to_text i)),
                            Console_error ''Error deleting session:'']\<rparr>"
  by (simp add: handleDeleteSession_def handleDeleteSession_call_def
      handleDeleteSession_cont_def emit_def)

lemma delete_resolved_list:
  "2 \<le> length (historyList s) \<Longrightarrow>
   historyList (handleDeleteSession i True (Resolved status body) hres s) =
     filter (\<lambda>item. item_id item \<noteq> i) (historyList s)"
  by (simp add: handleDeleteSession_def handleDeleteSession_call_def
      handleDeleteSession_cont_def handleLoadSession_call_def fetchHistory_call_def
      fetchHistory_cont_frame emit_def Let_def split: list.split started.split)

lemma delete_resolved_store:
  "2 \<le> length (historyList s) \<Longrightarrow>
   localStorage (handleDeleteSession i True (Resolved status body) hres s) ''chat_history_list'' =
     Some (JSON_stringify (filter (\<lambda>item. item_id item \<noteq> i) (historyList s)))"
  by (simp add: handleDeleteSession_def handleDeleteSession_call_def
      handleDeleteSession_cont_def handleLoadSession_call_def fetchHistory_call_def
      fetchHistory_cont_frame emit_def Let_def split: list.split started.split)

lemma create_list:
  "historyList (createSession now res s) =
     (case res of Resolved status (Some i) \<Rightarrow> \<lparr>item_id = i, date = now\<rparr> # historyList s
      | _ \<Rightarrow> historyList s)"
  by (simp add: createSession_def createSession_call_def createSession_cont_def emit_def
      Let_def split: fetched.split option.split)

subsection \<open>sendMessage\<close>

lemma sendMessage_call_awaits:
  "trim (input s) \<noteq> [] \<Longrightarrow> \<not> isLoading s \<Longrightarrow>
   sendMessage_call s =
     Awaiting (s\<lparr>messages := messages s @ [\<lparr>role = ''user'', content = input s, sources = None\<rparr>],
                input := [], isLoading := True,
                trace := trace s @ [Fetch (POST_chat (sessionId s) (input s))]\<rparr>)"
  by (simp add: sendMessage_call_def emit_def)

lemma sendMessage_cont_fields:
  "input (sendMessage_cont res s) = input s"
  "isLoading (sendMessage_cont res s) = False"
  "messages (sendMessage_cont res s) = messages s @
     [case res of Resolved status (Some data) \<Rightarrow>
        \<lparr>role = ''assistant'', content = answer data, sources = answer_sources data\<rparr>
      | _ \<Rightarrow> apology]"
  by (simp_all add: sendMessage_cont_def emit_def split: fetched.split option.split)

lemma scenario_trim: "trim (input scenario_state) = ''weather?''"
  by (simp add: scenario_state_def trim_def is_white_space_def)

subsection \<open>The invariant of the event loop\<close>










section \<open>The claims\<close>

subsection \<open>C1: deletion when the backend call fails\<close>

text \<open>
  C1 as stated fails. In \<open>scenario_state\<close> the directory has two entries and the user
  confirms; the \<open>DELETE\<close> request rejects. The \<open>await\<close> throws inside the \<open>try\<close>, the
  \<open>catch\<close> logs, and the lines that filter and persist the list are never reached:
  \<open>s1\<close> is still in the directory and the store is what it was.
\<close>

theorem deleteSession_rejected_counterexample:
  "2 \<le> length (historyList scenario_state) \<and>
   directory_ids (handleDeleteSession (Str ''s1'') True Rejected Rejected scenario_state)
     = [Str ''s1'', Str ''s2''] \<and>
   localStorage (handleDeleteSession (Str ''s1'') True Rejected Rejected scenario_state)
     = localStorage scenario_state"
  by (simp add: scenario_state_def directory_ids_def handleDeleteSession_def
      handleDeleteSession_call_def handleDeleteSession_cont_def emit_def)

text \<open>
  C1, amended. For a directory of at least two entries and a confirming user: when
  the \<open>DELETE\<close> request resolves, with any HTTP status and so also with an error
  status, the entry with that id is removed from the directory and the new directory is
  persisted; when the request rejects, nothing changes but the log (confirmation,
  request, error).
\<close>

theorem deleteSession_removal_follows_response:
  assumes "2 \<le> length (historyList s)"
  shows "historyList (handleDeleteSession i True (Resolved status body) hres s) =
           filter (\<lambda>item. item_id item \<noteq> i) (historyList s) \<and>
         i \<notin> set (directory_ids (handleDeleteSession i True (Resolved status body) hres s)) \<and>
         directory_persisted (handleDeleteSession i True (Resolved status body) hres s) \<and>
         handleDeleteSession i True Rejected hres s =
           s\<lparr>trace := trace s @ [Confirm delete_prompt, Fetch (DELETE_session (to_text i)),
                                  Console_error ''Error deleting session:'']\<rparr>"
  using assms
  by (auto simp add: delete_resolved_list delete_resolved_store delete_rejected
      directory_persisted_def directory_ids_def)

text \<open>The amended C1 on \<open>scenario_state\<close>, the backend answering with status 500.\<close>

theorem deleteSession_removal_follows_response_witness:
  "2 \<le> length (historyList scenario_state) \<and>
   directory_ids (handleDeleteSession (Str ''s1'') True (Resolved 500 None)
     (Resolved 200 (Some (Some []))) scenario_state) = [Str ''s2''] \<and>
   directory_persisted (handleDeleteSession (Str ''s1'') True (Resolved 500 None)
     (Resolved 200 (Some (Some []))) scenario_state)"
proof -
  have len: "2 \<le> length (historyList scenario_state)"
    by (simp add: scenario_state_def)
  from deleteSession_removal_follows_response [OF len, where i = "Str ''s1''" and status = 500 and body = None
      and hres = "Resolved 200 (Some (Some []))"]
  show ?thesis
    by (simp add: directory_ids_def) (simp add: scenario_state_def)
qed

subsection \<open>C2: reset when the backend call fails\<close>

text \<open>
  C2 as stated fails. With \<open>s1\<close> active and the user confirming, a \<open>DELETE\<close> request
  that rejects leaves the two messages of the transcript in place: the reset to the
  greeting stands after the \<open>await\<close> inside the \<open>try\<close>.
\<close>

theorem resetChat_rejected_counterexample:
  "sessionId scenario_state = Str ''s1'' \<and>
   messages (handleResetChat True Rejected scenario_state) =
     [\<lparr>role = ''user'', content = ''hi'', sources = None\<rparr>,
      \<lparr>role = ''assistant'', content = ''hello'', sources = None\<rparr>] \<and>
   messages (handleResetChat True Rejected scenario_state) \<noteq> [greeting]"
  by (simp add: scenario_state_def handleResetChat_def handleResetChat_call_def
      handleResetChat_cont_def emit_def falsy_def to_text_def)

text \<open>
  C2, amended. With an active session (a non-empty \<open>sessionId\<close>) and a confirming
  user: when the \<open>DELETE\<close> request resolves, with any HTTP status, the transcript
  becomes the single greeting and nothing else changes but the log; when the request
  rejects, the transcript and everything else but the log stay as they were.
\<close>

theorem resetChat_reset_follows_response:
  assumes "sessionId s = Str sid" and "sid \<noteq> []"
  shows "handleResetChat True (Resolved status body) s =
           s\<lparr>messages := [greeting],
              trace := trace s @ [Confirm reset_prompt, Fetch (DELETE_session sid)]\<rparr> \<and>
         handleResetChat True Rejected s =
           s\<lparr>trace := trace s @ [Confirm reset_prompt, Fetch (DELETE_session sid),
                                  Console_error ''Error resetting chat:'']\<rparr>"
  using assms
  by (simp add: handleResetChat_def handleResetChat_call_def handleResetChat_cont_def emit_def
      falsy_def to_text_def)

text \<open>The amended C2 on \<open>scenario_state\<close>.\<close>

theorem resetChat_reset_follows_response_witness:
  "sessionId scenario_state = Str ''s1'' \<and> ''s1'' \<noteq> [] \<and>
   messages (handleResetChat True (Resolved 500 None) scenario_state) = [greeting] \<and>
   messages (handleResetChat True Rejected scenario_state) = messages scenario_state"
proof -
  have sid: "sessionId scenario_state = Str ''s1''" and ne: "''s1'' \<noteq> []"
    by (simp_all add: scenario_state_def)
  from resetChat_reset_follows_response [OF sid ne, where status = 500 and body = None]
  show ?thesis by (simp add: sid)
qed

subsection \<open>C3: the pending flag\<close>

text \<open>
  C3 as stated fails. \<open>createSession\<close> reaches its \<open>await\<close> with \<open>isLoading\<close> still
  false, and called while \<open>isLoading\<close> is true it is not ignored: it sends its request
  and, when that resolves, switches the active session.
\<close>

theorem pending_not_set_by_createSession_counterexample:
  "\<not> isLoading (createSession_call scenario_state) \<and>
   trace (createSession_call (scenario_state\<lparr>isLoading := True\<rparr>)) = [Fetch POST_session] \<and>
   sessionId (createSession ''d3'' (Resolved 200 (Some (Str ''s3''))) (scenario_state\<lparr>isLoading := True\<rparr>))
     = Str ''s3''"
  by (simp add: scenario_state_def createSession_def createSession_call_def
      createSession_cont_def emit_def Let_def)

text \<open>
  C3, amended. Only \<open>sendMessage\<close> is serialized by the pending flag. With a
  non-blank input and the flag false it stops at its \<open>await\<close> with the flag true; its
  continuation clears the flag however the request settled; called while the flag is
  true, or with a blank input, it changes nothing. \<open>createSession\<close>,
  \<open>handleLoadSession\<close>, \<open>handleDeleteSession\<close> and \<open>handleResetChat\<close> neither read
  nor write the flag: each does the same whatever the flag is, and leaves it as it was.
\<close>

theorem pending_guards_only_sendMessage:
  "(trim (input s) \<noteq> [] \<and> \<not> isLoading s \<longrightarrow>
      (\<exists>s1. sendMessage_call s = Awaiting s1 \<and> isLoading s1)) \<and>
   \<not> isLoading (sendMessage_cont res s) \<and>
   (isLoading s \<longrightarrow> sendMessage res s = s) \<and>
   (trim (input s) = [] \<longrightarrow> sendMessage res s = s) \<and>
   createSession now cres (s\<lparr>isLoading := b\<rparr>) = (createSession now cres s)\<lparr>isLoading := b\<rparr> \<and>
   handleLoadSession i hres (s\<lparr>isLoading := b\<rparr>) = (handleLoadSession i hres s)\<lparr>isLoading := b\<rparr> \<and>
   handleDeleteSession i confirmed dres hres (s\<lparr>isLoading := b\<rparr>) =
     (handleDeleteSession i confirmed dres hres s)\<lparr>isLoading := b\<rparr> \<and>
   handleResetChat confirmed dres (s\<lparr>isLoading := b\<rparr>) =
     (handleResetChat confirmed dres s)\<lparr>isLoading := b\<rparr>"
proof -
  have send1: "trim (input s) \<noteq> [] \<and> \<not> isLoading s \<longrightarrow>
      (\<exists>s1. sendMessage_call s = Awaiting s1 \<and> isLoading s1)"
    by (simp add: sendMessage_call_def emit_def)
  have send2: "\<not> isLoading (sendMessage_cont res s)"
    by (simp add: sendMessage_cont_fields)
  have send3: "isLoading s \<longrightarrow> sendMessage res s = s"
    by (simp add: sendMessage_def sendMessage_call_def)
  have send4: "trim (input s) = [] \<longrightarrow> sendMessage res s = s"
    by (simp add: sendMessage_def sendMessage_call_def)
  have create: "createSession now cres (s\<lparr>isLoading := b\<rparr>) =
      (createSession now cres s)\<lparr>isLoading := b\<rparr>"
    by (simp add: createSession_def createSession_call_def createSession_cont_def emit_def
        Let_def split: fetched.split option.split)
  have load: "handleLoadSession i hres (s\<lparr>isLoading := b\<rparr>) =
      (handleLoadSession i hres s)\<lparr>isLoading := b\<rparr>"
    by (simp add: handleLoadSession_def handleLoadSession_call_def fetchHistory_call_def
        fetchHistory_cont_def emit_def split: fetched.split option.split list.split)
  have del: "handleDeleteSession i confirmed dres hres (s\<lparr>isLoading := b\<rparr>) =
      (handleDeleteSession i confirmed dres hres s)\<lparr>isLoading := b\<rparr>"
    by (simp add: handleDeleteSession_def handleDeleteSession_call_def
        handleDeleteSession_cont_def handleLoadSession_call_def fetchHistory_call_def
        fetchHistory_cont_def emit_def Let_def
        split: fetched.split option.split list.split)
  have reset: "handleResetChat confirmed dres (s\<lparr>isLoading := b\<rparr>) =
      (handleResetChat confirmed dres s)\<lparr>isLoading := b\<rparr>"
    by (simp add: handleResetChat_def handleResetChat_call_def handleResetChat_cont_def
        emit_def split: fetched.split option.split)
  from send1 send2 send3 send4 create load del reset show ?thesis by blast
qed

text \<open>
  The amended C3 on \<open>scenario_state\<close>: a send that goes through, and a send while
  the flag is true.
\<close>

theorem pending_guards_only_sendMessage_witness:
  "trim (input scenario_state) \<noteq> [] \<and> \<not> isLoading scenario_state \<and>
   (\<exists>s1. sendMessage_call scenario_state = Awaiting s1 \<and> isLoading s1) \<and>
   isLoading (scenario_state\<lparr>isLoading := True\<rparr>) \<and>
   sendMessage Rejected (scenario_state\<lparr>isLoading := True\<rparr>) = scenario_state\<lparr>isLoading := True\<rparr>"
proof -
  have a: "trim (input scenario_state) \<noteq> []" by (simp add: scenario_trim)
  have b: "\<not> isLoading scenario_state" by (simp add: scenario_state_def)
  have c: "isLoading (scenario_state\<lparr>isLoading := True\<rparr>)" by simp
  from pending_guards_only_sendMessage [where s = scenario_state] a b
  have d: "\<exists>s1. sendMessage_call scenario_state = Awaiting s1 \<and> isLoading s1" by blast
  from pending_guards_only_sendMessage [where s = "scenario_state\<lparr>isLoading := True\<rparr>" and res = Rejected] c
  have e: "sendMessage Rejected (scenario_state\<lparr>isLoading := True\<rparr>) =
      scenario_state\<lparr>isLoading := True\<rparr>" by blast
  from a b c d e show ?thesis by blast
qed

subsection \<open>C4: what a send appends\<close>

text \<open>
  C4 as stated fails in its last part. The typed input of \<open>scenario_state\<close> has a
  leading space; the message appended for the user carries the input as typed, not the
  trimmed input. Trimming is only used to test for a blank input.
\<close>

theorem sendMessage_content_counterexample:
  "trim (input scenario_state) = ''weather?'' \<and> \<not> isLoading scenario_state \<and>
   map content (messages (sendMessage Rejected scenario_state)) =
     [''hi'', ''hello'', '' weather?'', ''Sorry, something went wrong. Please try again.''] \<and>
   content (messages (sendMessage Rejected scenario_state) ! 2) \<noteq> trim (input scenario_state)"
proof -
  have a: "trim (input scenario_state) \<noteq> []" "\<not> isLoading scenario_state"
    by (simp_all add: scenario_trim) (simp add: scenario_state_def)
  have "messages (sendMessage Rejected scenario_state) =
      messages scenario_state @ [\<lparr>role = ''user'', content = input scenario_state, sources = None\<rparr>,
        apology]"
    by (simp add: sendMessage_def sendMessage_call_awaits [OF a] sendMessage_cont_fields)
  then show ?thesis
    by (simp add: scenario_trim a(2)) (simp add: scenario_state_def apology_def)
qed

text \<open>
  C4, amended. For every transcript and every input that is non-empty after
  trimming, \<open>sendMessage\<close> with the pending flag false appends exactly the user's
  message, whose content is the input as typed (untrimmed), and then exactly one
  assistant message: the answer and sources of the response when the request resolved
  with a JSON body, the fixed apology, which has no sources, otherwise. The transcript
  grows by two and the user's message stays.
\<close>

theorem sendMessage_appends_two:
  assumes "trim (input s) \<noteq> []" and "\<not> isLoading s"
  shows "messages (sendMessage res s) =
           messages s @
           [\<lparr>role = ''user'', content = input s, sources = None\<rparr>,
            case res of
              Resolved status (Some data) \<Rightarrow>
                \<lparr>role = ''assistant'', content = answer data, sources = answer_sources data\<rparr>
            | _ \<Rightarrow> apology] \<and>
         length (messages (sendMessage res s)) = length (messages s) + 2 \<and>
         sources apology = None"
  by (simp add: sendMessage_def sendMessage_call_awaits [OF assms] sendMessage_cont_fields
      apology_def)

text \<open>The amended C4 on \<open>scenario_state\<close>, once answered and once rejected.\<close>

theorem sendMessage_appends_two_witness:
  "trim (input scenario_state) \<noteq> [] \<and> \<not> isLoading scenario_state \<and>
   messages (sendMessage (Resolved 200 (Some \<lparr>answer = ''sunny'', answer_sources = Some []\<rparr>))
      scenario_state) =
     messages scenario_state @
       [\<lparr>role = ''user'', content = '' weather?'', sources = None\<rparr>,
        \<lparr>role = ''assistant'', content = ''sunny'', sources = Some []\<rparr>] \<and>
   length (messages (sendMessage Rejected scenario_state)) = 4"
proof -
  have a: "trim (input scenario_state) \<noteq> []" and b: "\<not> isLoading scenario_state"
    by (simp_all add: scenario_trim) (simp add: scenario_state_def)
  have i: "input scenario_state = '' weather?''" and n: "length (messages scenario_state) = 2"
    by (simp_all add: scenario_state_def)
  from sendMessage_appends_two [OF a b, where res = "Resolved 200 (Some \<lparr>answer = ''sunny'', answer_sources = Some []\<rparr>)"]
    sendMessage_appends_two [OF a b, where res = Rejected]
  show ?thesis using a by (simp add: b i n)
qed

subsection \<open>C5: the last session cannot be deleted\<close>




subsection \<open>C6: the transcript after a history fetch\<close>

text \<open>
  C6. For every session id, when the history request resolves with an empty
  \<open>history\<close> the transcript becomes exactly the one greeting, never the empty list;
  when it resolves with a non-empty \<open>history\<close> the transcript becomes that history
  as it is.
\<close>

theorem fetchHistory_empty_gives_greeting:
  "messages (fetchHistory i (Resolved status (Some (Some []))) s) = [greeting] \<and>
   messages (fetchHistory i (Resolved status (Some (Some []))) s) \<noteq> [] \<and>
   (h \<noteq> [] \<longrightarrow> messages (fetchHistory i (Resolved status (Some (Some h))) s) = h)"
  by (cases h) (simp_all add: fetchHistory_def fetchHistory_call_def fetchHistory_cont_def emit_def)

text \<open>C6 on a history of two messages.\<close>

theorem fetchHistory_empty_gives_greeting_witness:
  "[\<lparr>role = ''user'', content = ''hi'', sources = None\<rparr>,
    \<lparr>role = ''assistant'', content = ''hello'', sources = None\<rparr>] \<noteq> [] \<and>
   messages (fetchHistory (Str ''s1'') (Resolved 200 (Some (Some
     [\<lparr>role = ''user'', content = ''hi'', sources = None\<rparr>,
      \<lparr>role = ''assistant'', content = ''hello'', sources = None\<rparr>]))) scenario_state) =
     [\<lparr>role = ''user'', content = ''hi'', sources = None\<rparr>,
      \<lparr>role = ''assistant'', content = ''hello'', sources = None\<rparr>]"
  using fetchHistory_empty_gives_greeting [where i = "Str ''s1''" and status = 200 and s = scenario_state
      and h = "[\<lparr>role = ''user'', content = ''hi'', sources = None\<rparr>,
                \<lparr>role = ''assistant'', content = ''hello'', sources = None\<rparr>]"]
  by simp

subsection \<open>C7: deleting the active session\<close>

text \<open>
  C7 as stated fails. A directory of two entries that both carry the id of the active
  session is emptied by the deletion; reading the \<open>id\<close> of the first entry of the
  empty list throws into the \<open>catch\<close>, so the active session stays the deleted one,
  no history is requested, and the transcript stays as it was.
\<close>

theorem deleteSession_all_entries_same_id_counterexample:
  "2 \<le> length (historyList (scenario_state
      \<lparr>historyList := [\<lparr>item_id = Str ''s1'', date = ''d1''\<rparr>,
                        \<lparr>item_id = Str ''s1'', date = ''d2''\<rparr>]\<rparr>)) \<and>
   handleDeleteSession (Str ''s1'') True (Resolved 200 None)
       (Resolved 200 (Some (Some [\<lparr>role = ''user'', content = ''news?'', sources = None\<rparr>])))
       (scenario_state
          \<lparr>historyList := [\<lparr>item_id = Str ''s1'', date = ''d1''\<rparr>,
                            \<lparr>item_id = Str ''s1'', date = ''d2''\<rparr>]\<rparr>) =
     scenario_state
       \<lparr>historyList := [],
        localStorage := (localStorage scenario_state)
          (''chat_history_list'' \<mapsto> JSON_stringify []),
        trace := [Confirm delete_prompt, Fetch (DELETE_session ''s1''),
                  Console_error ''Error deleting session:'']\<rparr> \<and>
   sessionId scenario_state = Str ''s1'' \<and>
   messages scenario_state =
     [\<lparr>role = ''user'', content = ''hi'', sources = None\<rparr>,
      \<lparr>role = ''assistant'', content = ''hello'', sources = None\<rparr>]"
  by (simp add: scenario_state_def handleDeleteSession_def handleDeleteSession_call_def
      handleDeleteSession_cont_def emit_def Let_def to_text_def)

text \<open>
  C7, amended. The directory has at least two entries, not all of which carry the id
  deleted; the session deleted is the active one, the user confirms and the \<open>DELETE\<close>
  request resolves. Then the entries with that id are removed and the new directory
  is persisted; the id of its first entry becomes the active session and is stored
  under \<open>chat_session_id\<close>; after the confirmation and the \<open>DELETE\<close> the history of
  that id is requested; and the transcript becomes the history returned, the one
  greeting when the history returned is empty or missing, and stays as it was when
  the history request fails. The input and the pending flag are untouched. The final
  state is the one \<open>fetchHistory\<close> on that id gives from the switched state.
\<close>

theorem deleteSession_active_selects_first:
  assumes "2 \<le> length (historyList s)" and "sessionId s = i"
    and "filter (\<lambda>item. item_id item \<noteq> i) (historyList s) = nextSession # rest"
  shows "historyList (handleDeleteSession i True (Resolved status body) hres s) =
           nextSession # rest \<and>
         directory_persisted (handleDeleteSession i True (Resolved status body) hres s) \<and>
         sessionId (handleDeleteSession i True (Resolved status body) hres s) =
           item_id nextSession \<and>
         localStorage (handleDeleteSession i True (Resolved status body) hres s)
           ''chat_session_id'' = Some (to_text (item_id nextSession)) \<and>
         trace (handleDeleteSession i True (Resolved status body) hres s) =
           trace s @
           [Confirm delete_prompt, Fetch (DELETE_session (to_text i)),
            Fetch (GET_history (to_text (item_id nextSession)))] @
           (case hres of
              Resolved hstatus (Some h) \<Rightarrow> []
            | _ \<Rightarrow> [Console_error ''Error fetching history:'']) \<and>
         messages (handleDeleteSession i True (Resolved status body) hres s) =
           (case hres of
              Resolved hstatus (Some (Some (m # ms))) \<Rightarrow> m # ms
            | Resolved hstatus (Some _) \<Rightarrow> [greeting]
            | _ \<Rightarrow> messages s) \<and>
         input (handleDeleteSession i True (Resolved status body) hres s) = input s \<and>
         isLoading (handleDeleteSession i True (Resolved status body) hres s) = isLoading s \<and>
         handleDeleteSession i True (Resolved status body) hres s =
           fetchHistory (item_id nextSession) hres
             (s\<lparr>historyList := nextSession # rest,
                sessionId := item_id nextSession,
                localStorage := (localStorage s)
                  (''chat_history_list'' \<mapsto> JSON_stringify (nextSession # rest),
                   ''chat_session_id'' \<mapsto> to_text (item_id nextSession)),
                trace := trace s @ [Confirm delete_prompt, Fetch (DELETE_session (to_text i))]\<rparr>)"
proof -
  let ?s' = "handleDeleteSession i True (Resolved status body) hres s"
  let ?mid = "s\<lparr>historyList := nextSession # rest,
                sessionId := item_id nextSession,
                localStorage := (localStorage s)
                  (''chat_history_list'' \<mapsto> JSON_stringify (nextSession # rest),
                   ''chat_session_id'' \<mapsto> to_text (item_id nextSession)),
                trace := trace s @ [Confirm delete_prompt, Fetch (DELETE_session (to_text i)),
                   Fetch (GET_history (to_text (item_id nextSession)))]\<rparr>"
  from assms(3) have "nextSession \<in> set (filter (\<lambda>item. item_id item \<noteq> i) (historyList s))"
    by simp
  then have ne: "item_id nextSession \<noteq> i" by simp
  have run: "?s' = fetchHistory_cont hres ?mid"
    using assms ne
    by (simp add: handleDeleteSession_def handleDeleteSession_call_def
        handleDeleteSession_cont_def handleLoadSession_call_def
        fetchHistory_call_def emit_def Let_def)
  have eq: "?s' = fetchHistory (item_id nextSession) hres
             (s\<lparr>historyList := nextSession # rest,
                sessionId := item_id nextSession,
                localStorage := (localStorage s)
                  (''chat_history_list'' \<mapsto> JSON_stringify (nextSession # rest),
                   ''chat_session_id'' \<mapsto> to_text (item_id nextSession)),
                trace := trace s @ [Confirm delete_prompt, Fetch (DELETE_session (to_text i))]\<rparr>)"
    by (simp add: run fetchHistory_def fetchHistory_call_def emit_def)
  have fields: "historyList ?s' = nextSession # rest" "directory_persisted ?s'"
    "sessionId ?s' = item_id nextSession"
    "localStorage ?s' ''chat_session_id'' = Some (to_text (item_id nextSession))"
    "input ?s' = input s" "isLoading ?s' = isLoading s"
    by (simp_all add: run fetchHistory_cont_frame directory_persisted_def)
  have tr: "trace ?s' = trace s @
           [Confirm delete_prompt, Fetch (DELETE_session (to_text i)),
            Fetch (GET_history (to_text (item_id nextSession)))] @
           (case hres of
              Resolved hstatus (Some h) \<Rightarrow> []
            | _ \<Rightarrow> [Console_error ''Error fetching history:''])"
    by (simp add: run fetchHistory_cont_trace)
  have ms: "messages ?s' =
           (case hres of
              Resolved hstatus (Some (Some (m # ms))) \<Rightarrow> m # ms
            | Resolved hstatus (Some _) \<Rightarrow> [greeting]
            | _ \<Rightarrow> messages s)"
    by (simp add: run fetchHistory_cont_messages split: fetched.split option.split list.split)
  from fields tr ms eq show ?thesis by blast
qed

text \<open>
  The amended C7 on \<open>scenario_state\<close>: deleting the active \<open>s1\<close> makes \<open>s2\<close> active,
  requests its history and shows it.
\<close>

theorem deleteSession_active_selects_first_witness:
  "2 \<le> length (historyList scenario_state) \<and> sessionId scenario_state = Str ''s1'' \<and>
   filter (\<lambda>item. item_id item \<noteq> Str ''s1'') (historyList scenario_state) =
     [\<lparr>item_id = Str ''s2'', date = ''d2''\<rparr>] \<and>
   historyList (handleDeleteSession (Str ''s1'') True (Resolved 200 None)
     (Resolved 200 (Some (Some [\<lparr>role = ''user'', content = ''news?'', sources = None\<rparr>])))
     scenario_state) = [\<lparr>item_id = Str ''s2'', date = ''d2''\<rparr>] \<and>
   sessionId (handleDeleteSession (Str ''s1'') True (Resolved 200 None)
     (Resolved 200 (Some (Some [\<lparr>role = ''user'', content = ''news?'', sources = None\<rparr>])))
     scenario_state) = Str ''s2'' \<and>
   localStorage (handleDeleteSession (Str ''s1'') True (Resolved 200 None)
     (Resolved 200 (Some (Some [\<lparr>role = ''user'', content = ''news?'', sources = None\<rparr>])))
     scenario_state) ''chat_session_id'' = Some ''s2'' \<and>
   trace (handleDeleteSession (Str ''s1'') True (Resolved 200 None)
     (Resolved 200 (Some (Some [\<lparr>role = ''user'', content = ''news?'', sources = None\<rparr>])))
     scenario_state) =
     [Confirm delete_prompt, Fetch (DELETE_session ''s1''), Fetch (GET_history ''s2'')] \<and>
   messages (handleDeleteSession (Str ''s1'') True (Resolved 200 None)
     (Resolved 200 (Some (Some [\<lparr>role = ''user'', content = ''news?'', sources = None\<rparr>])))
     scenario_state) = [\<lparr>role = ''user'', content = ''news?'', sources = None\<rparr>] \<and>
   messages (handleDeleteSession (Str ''s1'') True (Resolved 200 None)
     (Resolved 200 (Some (Some []))) scenario_state) = [greeting]"
proof -
  have pre: "2 \<le> length (historyList scenario_state)" "sessionId scenario_state = Str ''s1''"
    "filter (\<lambda>item. item_id item \<noteq> Str ''s1'') (historyList scenario_state) =
       [\<lparr>item_id = Str ''s2'', date = ''d2''\<rparr>]"
    by (simp_all add: scenario_state_def)
  have tr: "trace scenario_state = []" by (simp add: scenario_state_def)
  from deleteSession_active_selects_first [OF pre, where status = 200 and body = None
      and hres = "Resolved 200 (Some (Some [\<lparr>role = ''user'', content = ''news?'', sources = None\<rparr>]))"]
    deleteSession_active_selects_first [OF pre, where status = 200 and body = None
      and hres = "Resolved 200 (Some (Some []))"]
  show ?thesis
    using pre
    by (simp add: tr to_text_def fetchHistory_def fetchHistory_call_def fetchHistory_cont_def
        emit_def)
qed

subsection \<open>C8: a declined confirmation\<close>

text \<open>
  C8. On a directory of at least two entries \<open>handleDeleteSession\<close>, and with an
  active session \<open>handleResetChat\<close>, asks for confirmation before anything else: the
  confirmation is the first event, and the request follows it only when the user
  confirmed. When the user declines, no request is sent and the directory, the store,
  the active session and the transcript are what they were.
\<close>

theorem declined_confirmation_changes_nothing:
  "(2 \<le> length (historyList s) \<longrightarrow>
      handleDeleteSession i False res hres s = s\<lparr>trace := trace s @ [Confirm delete_prompt]\<rparr> \<and>
      handleDeleteSession_call i True s =
        Awaiting (s\<lparr>trace := trace s @ [Confirm delete_prompt, Fetch (DELETE_session (to_text i))]\<rparr>)) \<and>
   (sessionId s = Str sid \<and> sid \<noteq> [] \<longrightarrow>
      handleResetChat False res s = s\<lparr>trace := trace s @ [Confirm reset_prompt]\<rparr> \<and>
      handleResetChat_call True s =
        Awaiting (s\<lparr>trace := trace s @ [Confirm reset_prompt, Fetch (DELETE_session sid)]\<rparr>))"
  by (simp add: delete_declined handleDeleteSession_call_def handleResetChat_def
      handleResetChat_call_def emit_def falsy_def to_text_def)

text \<open>C8 on \<open>scenario_state\<close>, the user declining both questions.\<close>

theorem declined_confirmation_changes_nothing_witness:
  "2 \<le> length (historyList scenario_state) \<and>
   handleDeleteSession (Str ''s1'') False Rejected Rejected scenario_state =
     scenario_state\<lparr>trace := [Confirm delete_prompt]\<rparr> \<and>
   sessionId scenario_state = Str ''s1'' \<and> ''s1'' \<noteq> [] \<and>
   handleResetChat False Rejected scenario_state = scenario_state\<lparr>trace := [Confirm reset_prompt]\<rparr>"
proof -
  have pre: "2 \<le> length (historyList scenario_state)" "sessionId scenario_state = Str ''s1''"
    "''s1'' \<noteq> []" "trace scenario_state = []"
    by (simp_all add: scenario_state_def)
  from declined_confirmation_changes_nothing [where s = scenario_state and i = "Str ''s1''"
      and sid = "''s1''" and res = Rejected and hres = Rejected] pre
  show ?thesis by simp
qed

subsection \<open>C9: the directory is persisted with every change\<close>

text \<open>
  C9. The prepend of \<open>createSession\<close> and the removal of \<open>handleDeleteSession\<close> write
  the serialization of the new list under \<open>chat_history_list\<close> together with the
  list, so after either the persisted directory is the one in memory; and whatever
  way the two handlers go, a directory that was persisted before is persisted after.
  The two writes stand in one continuation: whatever list the closure holds and
  whatever the state is when the request resolves, the continuation leaves the
  persisted directory equal to the one in memory.
\<close>

theorem directory_written_with_list:
  "historyList (createSession now (Resolved status (Some newId)) s) =
     \<lparr>item_id = newId, date = now\<rparr> # historyList s \<and>
   directory_persisted (createSession now (Resolved status (Some newId)) s) \<and>
   (2 \<le> length (historyList s) \<longrightarrow>
      historyList (handleDeleteSession i True (Resolved status body) hres s) =
        filter (\<lambda>item. item_id item \<noteq> i) (historyList s) \<and>
      directory_persisted (handleDeleteSession i True (Resolved status body) hres s)) \<and>
   (directory_persisted s \<longrightarrow>
      directory_persisted (createSession now cres s) \<and>
      directory_persisted (handleDeleteSession i confirmed dres hres s)) \<and>
   directory_persisted (createSession_cont historyList0 now (Resolved status (Some newId)) s0) \<and>
   directory_persisted
     (case handleDeleteSession_cont historyList0 sessionId0 i (Resolved status body) s0 of
        Returned s1 \<Rightarrow> s1 | Awaiting s1 \<Rightarrow> s1)"
proof -
  have k1: "directory_persisted
      (createSession_cont historyList0 now (Resolved status (Some newId)) s0)"
    by (simp add: directory_persisted_def createSession_cont_def Let_def)
  have k2: "directory_persisted
     (case handleDeleteSession_cont historyList0 sessionId0 i (Resolved status body) s0 of
        Returned s1 \<Rightarrow> s1 | Awaiting s1 \<Rightarrow> s1)"
    by (simp add: directory_persisted_def handleDeleteSession_cont_def
        handleLoadSession_call_def fetchHistory_call_def emit_def Let_def split: list.split)
  have c1: "historyList (createSession now (Resolved status (Some newId)) s) =
     \<lparr>item_id = newId, date = now\<rparr> # historyList s"
    by (simp add: create_list)
  have c2: "directory_persisted (createSession now (Resolved status (Some newId)) s)"
    by (simp add: directory_persisted_def createSession_def createSession_call_def
        createSession_cont_def emit_def Let_def)
  have d: "2 \<le> length (historyList s) \<longrightarrow>
      historyList (handleDeleteSession i True (Resolved status body) hres s) =
        filter (\<lambda>item. item_id item \<noteq> i) (historyList s) \<and>
      directory_persisted (handleDeleteSession i True (Resolved status body) hres s)"
    by (simp add: directory_persisted_def delete_resolved_list delete_resolved_store)
  have pc: "directory_persisted s \<longrightarrow> directory_persisted (createSession now cres s)"
    by (simp add: directory_persisted_def createSession_def createSession_call_def
        createSession_cont_def emit_def Let_def split: fetched.split option.split)
  have pd: "directory_persisted s \<longrightarrow>
      directory_persisted (handleDeleteSession i confirmed dres hres s)"
  proof (cases "2 \<le> length (historyList s)")
    case False
    then show ?thesis by (simp add: delete_last directory_persisted_def)
  next
    case len: True
    show ?thesis
    proof (cases confirmed)
      case False
      with len show ?thesis by (simp add: delete_declined directory_persisted_def)
    next
      case True
      with len show ?thesis
        by (cases dres)
           (simp_all add: delete_rejected directory_persisted_def delete_resolved_list
              delete_resolved_store)
    qed
  qed
  from c1 c2 d pc pd k1 k2 show ?thesis by blast
qed

text \<open>C9 on \<open>scenario_state\<close>: a deletion, a failed creation and a creation.\<close>

theorem directory_written_with_list_witness:
  "2 \<le> length (historyList scenario_state) \<and> directory_persisted scenario_state \<and>
   directory_persisted (handleDeleteSession (Str ''s1'') True (Resolved 200 None) Rejected scenario_state) \<and>
   directory_persisted (createSession ''d3'' Rejected scenario_state) \<and>
   localStorage (createSession ''d3'' (Resolved 200 (Some (Str ''s3''))) scenario_state)
     ''chat_history_list'' =
     Some (JSON_stringify [\<lparr>item_id = Str ''s3'', date = ''d3''\<rparr>, \<lparr>item_id = Str ''s1'', date = ''d1''\<rparr>,
       \<lparr>item_id = Str ''s2'', date = ''d2''\<rparr>])"
proof -
  have pre: "2 \<le> length (historyList scenario_state)" "directory_persisted scenario_state"
    by (simp_all add: scenario_state_def directory_persisted_def)
  have hl: "historyList scenario_state =
      [\<lparr>item_id = Str ''s1'', date = ''d1''\<rparr>, \<lparr>item_id = Str ''s2'', date = ''d2''\<rparr>]"
    by (simp add: scenario_state_def)
  from directory_written_with_list [where s = scenario_state and i = "Str ''s1''" and status = 200
      and body = None and hres = Rejected and now = "''d3''" and newId = "Str ''s3''"
      and cres = Rejected] pre
  show ?thesis by (simp add: directory_persisted_def hl)
qed

subsection \<open>C10: the input field during a send\<close>

text \<open>
  C10. A send that goes through stops at its \<open>await\<close> with the user's message
  appended, the input field empty, and the request sent carrying the input as it was
  typed, untrimmed. The continuation leaves the input field empty however the request
  settled.
\<close>

theorem sendMessage_clears_input:
  assumes "trim (input s) \<noteq> []" and "\<not> isLoading s"
  shows "\<exists>s1. sendMessage_call s = Awaiting s1 \<and>
           messages s1 = messages s @ [\<lparr>role = ''user'', content = input s, sources = None\<rparr>] \<and>
           input s1 = [] \<and>
           trace s1 = trace s @ [Fetch (POST_chat (sessionId s) (input s))] \<and>
           input (sendMessage_cont res s1) = [] \<and>
           input (sendMessage res s) = []"
  by (simp add: sendMessage_def sendMessage_call_awaits [OF assms] sendMessage_cont_fields)

text \<open>C10 on \<open>scenario_state\<close>: the request carries the leading space.\<close>

theorem sendMessage_clears_input_witness:
  "trim (input scenario_state) \<noteq> [] \<and> \<not> isLoading scenario_state \<and>
   (\<exists>s1. sendMessage_call scenario_state = Awaiting s1 \<and>
      trace s1 = [Fetch (POST_chat (Str ''s1'') '' weather?'')] \<and>
      input (sendMessage_cont Rejected s1) = []) \<and>
   input (sendMessage Rejected scenario_state) = []"
proof -
  have a: "trim (input scenario_state) \<noteq> []" and b: "\<not> isLoading scenario_state"
    by (simp_all add: scenario_trim) (simp add: scenario_state_def)
  have c: "trace scenario_state = []" "sessionId scenario_state = Str ''s1''"
    "input scenario_state = '' weather?''"
    by (simp_all add: scenario_state_def)
  from sendMessage_clears_input [OF a b, where res = Rejected]
  obtain s1 where s1: "sendMessage_call scenario_state = Awaiting s1"
    "trace s1 = trace scenario_state @
       [Fetch (POST_chat (sessionId scenario_state) (input scenario_state))]"
    "input (sendMessage_cont Rejected s1) = []"
    "input (sendMessage Rejected scenario_state) = []"
    by blast
  from s1(2) have "trace s1 = [Fetch (POST_chat (Str ''s1'') '' weather?'')]"
    by (simp add: c)
  with s1 a b show ?thesis by blast
qed

end
